theory Spec2Isabelle
  imports Complex_Main "HOL-Library.Sublist"
begin

section \<open>Azure managed identity credential: token cache and token provider\<close>

text \<open>
  A shallow embedding of \<^verbatim>\<open>AzureManagedIdentityApi.credentials.ts\<close> and of
  \<^verbatim>\<open>AzureManagedIdentityValidate.node.ts\<close>. JavaScript strings are modelled as
  \<^typ>\<open>string\<close>; everything a function reads from its surroundings (the clock, the
  process environment, the network) is an explicit argument, and the module-level
  \<^verbatim>\<open>tokenCache\<close> is threaded through as part of an explicit state.
\<close>

subsection \<open>JavaScript numbers as far as the cache needs them\<close>

text \<open>
  \<^verbatim>\<open>expiresOn\<close> is the result of \<^verbatim>\<open>parseInt(..., 10)\<close>: an integer or
  \<^verbatim>\<open>NaN\<close>. Subtraction propagates \<^verbatim>\<open>NaN\<close>, and every comparison with
  \<^verbatim>\<open>NaN\<close> is false.
\<close>

datatype jsnum = NaN | Fin int

fun js_sub :: "jsnum \<Rightarrow> jsnum \<Rightarrow> jsnum" where
  "js_sub (Fin a) (Fin b) = Fin (a - b)"
| "js_sub _ _ = NaN"

fun js_lt :: "jsnum \<Rightarrow> jsnum \<Rightarrow> bool" where
  "js_lt (Fin a) (Fin b) = (a < b)"
| "js_lt _ _ = False"

subsection \<open>Token cache\<close>

record CachedToken =
  accessToken :: string
  expiresOn :: jsnum

type_synonym tokenCache = "string \<rightharpoonup> CachedToken"

definition TOKEN_REFRESH_MARGIN_S :: int where
  "TOKEN_REFRESH_MARGIN_S = 300"

definition getCacheKey :: "string \<Rightarrow> string \<Rightarrow> string" where
  "getCacheKey resource clientId = resource @ ''|'' @ clientId"

text \<open>
  \<^verbatim>\<open>getCachedToken\<close>; \<open>nowS\<close> is \<^verbatim>\<open>Math.floor(Date.now() / 1000)\<close>. The result
  is the returned value (\<open>None\<close> for \<^verbatim>\<open>undefined\<close>) and the cache after the call.
\<close>

definition getCachedToken :: "int \<Rightarrow> string \<Rightarrow> string \<Rightarrow> tokenCache \<Rightarrow> string option \<times> tokenCache" where
  "getCachedToken nowS resource clientId tc =
     (case tc (getCacheKey resource clientId) of
        None \<Rightarrow> (None, tc)
      | Some entry \<Rightarrow>
          if js_lt (js_sub (expiresOn entry) (Fin nowS)) (Fin TOKEN_REFRESH_MARGIN_S)
          then (None, tc(getCacheKey resource clientId := None))
          else (Some (accessToken entry), tc))"

subsection \<open>Platform functions used by the token provider\<close>

text \<open>
  The exceptions of the program, by class, each with its message. \<open>Error\<close>,
  \<open>ApplicationError\<close> and \<open>NodeOperationError\<close> are raised by the source itself; the
  others are raised by the platform (\<^verbatim>\<open>fetch\<close>, \<^verbatim>\<open>JSON.parse\<close>,
  \<^verbatim>\<open>Date.prototype.toISOString\<close>, a property read on \<^verbatim>\<open>null\<close>).
\<close>

datatype js_error =
    Error string
  | ApplicationError string
  | NodeOperationError string
  | SyntaxError string
  | TypeError string
  | RangeError string

fun message :: "js_error \<Rightarrow> string" where
  "message (Error m) = m"
| "message (ApplicationError m) = m"
| "message (NodeOperationError m) = m"
| "message (SyntaxError m) = m"
| "message (TypeError m) = m"
| "message (RangeError m) = m"

text \<open>Decimal rendering of a non-negative integer, as a template literal renders it.\<close>

definition digit_char :: "nat \<Rightarrow> char" where
  "digit_char d = ''0123456789'' ! d"

function string_of_nat :: "nat \<Rightarrow> string" where
  "string_of_nat n =
     (if n < 10 then [digit_char n] else string_of_nat (n div 10) @ [digit_char (n mod 10)])"
  by pat_completeness auto
termination
  by (relation "measure id") auto

declare string_of_nat.simps [simp del]

text \<open>
  \<^verbatim>\<open>parseInt(s, 10)\<close>: leading white space is skipped, then an optional sign, then
  the longest run of decimal digits; no digit gives \<^verbatim>\<open>NaN\<close>. White space is the
  ECMAScript set, in its UTF-8 encoding. The value is the exact integer: the rounding of
  integers beyond \<open>2^53\<close> to a double is not modelled.
\<close>

definition white_space :: "string list" where
  "white_space =
     map (map char_of)
       [[0x09::nat], [0x0A], [0x0B], [0x0C], [0x0D], [0x20], [0xC2, 0xA0],
        [0xE1, 0x9A, 0x80], [0xE2, 0x80, 0x80], [0xE2, 0x80, 0x81], [0xE2, 0x80, 0x82],
        [0xE2, 0x80, 0x83], [0xE2, 0x80, 0x84], [0xE2, 0x80, 0x85], [0xE2, 0x80, 0x86],
        [0xE2, 0x80, 0x87], [0xE2, 0x80, 0x88], [0xE2, 0x80, 0x89], [0xE2, 0x80, 0x8A],
        [0xE2, 0x80, 0xA8], [0xE2, 0x80, 0xA9], [0xE2, 0x80, 0xAF], [0xE2, 0x81, 0x9F],
        [0xE3, 0x80, 0x80], [0xEF, 0xBB, 0xBF]]"

definition ws_len :: "string \<Rightarrow> nat" where
  "ws_len s = (case find (\<lambda>p. prefix p s) white_space of None \<Rightarrow> 0 | Some p \<Rightarrow> length p)"

fun trimStart_fuel :: "nat \<Rightarrow> string \<Rightarrow> string" where
  "trimStart_fuel 0 s = s"
| "trimStart_fuel (Suc k) s =
     (if ws_len s = 0 then s else trimStart_fuel k (drop (ws_len s) s))"

definition trimStart :: "string \<Rightarrow> string" where
  "trimStart s = trimStart_fuel (length s) s"

definition is_digit :: "char \<Rightarrow> bool" where
  "is_digit c = (48 \<le> (of_char c :: nat) \<and> (of_char c :: nat) \<le> 57)"

definition digit_val :: "char \<Rightarrow> int" where
  "digit_val c = int (of_char c) - 48"

definition mathInt :: "string \<Rightarrow> int" where
  "mathInt ds = foldl (\<lambda>acc c. acc * 10 + digit_val c) 0 ds"

definition parseInt :: "string \<Rightarrow> jsnum" where
  "parseInt inputString =
     (let S = trimStart inputString;
          sign = (if S \<noteq> [] \<and> hd S = CHR ''-'' then - 1 else 1 :: int);
          S = (if S \<noteq> [] \<and> (hd S = CHR ''+'' \<or> hd S = CHR ''-'') then tl S else S);
          Z = takeWhile is_digit S
      in if Z = [] then NaN else Fin (sign * mathInt Z))"

text \<open>
  \<^verbatim>\<open>URLSearchParams\<close>: an ordered list of name-value pairs. \<^verbatim>\<open>set\<close> overwrites
  the first pair of that name and drops the others, or appends. \<^verbatim>\<open>toString\<close> is the
  \<^verbatim>\<open>application/x-www-form-urlencoded\<close> serialiser: alphanumerics and
  \<^verbatim>\<open>*-._\<close> stay, a space becomes \<^verbatim>\<open>+\<close>, every other byte of the UTF-8 encoding
  becomes \<^verbatim>\<open>%XX\<close>.
\<close>

type_synonym URLSearchParams = "(string \<times> string) list"

fun params_set :: "URLSearchParams \<Rightarrow> string \<Rightarrow> string \<Rightarrow> URLSearchParams" where
  "params_set [] n v = [(n, v)]"
| "params_set ((k, w) # ps) n v =
     (if k = n then (n, v) # filter (\<lambda>kv. fst kv \<noteq> n) ps else (k, w) # params_set ps n v)"

definition hex_digit :: "nat \<Rightarrow> char" where
  "hex_digit d = ''0123456789ABCDEF'' ! d"

definition form_unreserved :: "char \<Rightarrow> bool" where
  "form_unreserved c =
     (let n = (of_char c :: nat)
      in (48 \<le> n \<and> n \<le> 57) \<or> (65 \<le> n \<and> n \<le> 90) \<or> (97 \<le> n \<and> n \<le> 122)
         \<or> n = 42 \<or> n = 45 \<or> n = 46 \<or> n = 95)"

definition form_encode_byte :: "char \<Rightarrow> string" where
  "form_encode_byte c =
     (if form_unreserved c then [c]
      else if c = CHR '' '' then ''+''
      else [CHR ''%'', hex_digit ((of_char c :: nat) div 16), hex_digit ((of_char c :: nat) mod 16)])"

definition form_encode :: "string \<Rightarrow> string" where
  "form_encode s = concat (map form_encode_byte s)"

fun intercalate :: "string \<Rightarrow> string list \<Rightarrow> string" where
  "intercalate sep [] = []"
| "intercalate sep [x] = x"
| "intercalate sep (x # y # ys) = x @ sep @ intercalate sep (y # ys)"

definition params_toString :: "URLSearchParams \<Rightarrow> string" where
  "params_toString ps =
     intercalate ''&'' (map (\<lambda>(n, v). form_encode n @ ''='' @ form_encode v) ps)"

subsection \<open>Requests, responses and the network\<close>

record request =
  req_url :: string
  req_method :: string
  req_headers :: "(string \<times> string) list"

text \<open>The body of a success response, as the source reads it after \<^verbatim>\<open>json()\<close>.\<close>

record token_json =
  access_token :: string
  expires_on :: string

text \<open>
  A \<^verbatim>\<open>Response\<close>: \<^verbatim>\<open>ok\<close>, \<^verbatim>\<open>status\<close>, and what the promises of
  \<^verbatim>\<open>text()\<close> and \<^verbatim>\<open>json()\<close> settle to (\<open>Inl\<close> when they reject).
\<close>

record response =
  resp_ok :: bool
  resp_status :: nat
  resp_text :: "js_error + string"
  resp_json :: "js_error + token_json"

text \<open>The global \<^verbatim>\<open>fetch\<close> at the time of a call: it rejects or resolves.\<close>

type_synonym fetch = "request \<Rightarrow> js_error + response"

text \<open>\<^verbatim>\<open>process.env\<close>: a variable is unset or holds a string.\<close>

type_synonym env = "string \<rightharpoonup> string"

text \<open>
  The state of the module: the token cache, and the log of the requests handed to
  \<^verbatim>\<open>fetch\<close> so far (what a spy on \<^verbatim>\<open>fetch\<close> records).
\<close>

record state =
  tokenCache :: tokenCache
  fetchCalls :: "request list"

definition initial_state :: state where
  "initial_state = \<lparr>tokenCache = Map.empty, fetchCalls = []\<rparr>"

definition call_fetch :: "fetch \<Rightarrow> request \<Rightarrow> state \<Rightarrow> (js_error + response) \<times> state" where
  "call_fetch net rq s = (net rq, s\<lparr>fetchCalls := fetchCalls s @ [rq]\<rparr>)"

subsection \<open>Token provider\<close>

definition IMDS_ENDPOINT :: string where
  "IMDS_ENDPOINT = ''http://169.254.169.254/metadata/identity/oauth2/token''"

definition appServiceParams :: "string \<Rightarrow> string \<Rightarrow> URLSearchParams" where
  "appServiceParams resource clientId =
     (let params = [(''api-version'', ''2019-08-01''), (''resource'', resource)]
      in if clientId \<noteq> [] then params_set params ''client_id'' clientId else params)"

definition appServiceRequest :: "string \<Rightarrow> string \<Rightarrow> string \<Rightarrow> string \<Rightarrow> request" where
  "appServiceRequest resource clientId identityEndpoint identityHeader =
     \<lparr>req_url = identityEndpoint @ ''?'' @ params_toString (appServiceParams resource clientId),
      req_method = ''GET'',
      req_headers = [(''X-IDENTITY-HEADER'', identityHeader)]\<rparr>"

definition fetchTokenFromAppService ::
  "fetch \<Rightarrow> string \<Rightarrow> string \<Rightarrow> string \<Rightarrow> string \<Rightarrow> state \<Rightarrow> (js_error + response) \<times> state" where
  "fetchTokenFromAppService net resource clientId identityEndpoint identityHeader s =
     call_fetch net (appServiceRequest resource clientId identityEndpoint identityHeader) s"

definition imdsParams :: "string \<Rightarrow> string \<Rightarrow> URLSearchParams" where
  "imdsParams resource clientId =
     (let params = [(''api-version'', ''2018-02-01''), (''resource'', resource)]
      in if clientId \<noteq> [] then params_set params ''client_id'' clientId else params)"

definition imdsRequest :: "string \<Rightarrow> string \<Rightarrow> request" where
  "imdsRequest resource clientId =
     \<lparr>req_url = IMDS_ENDPOINT @ ''?'' @ params_toString (imdsParams resource clientId),
      req_method = ''GET'',
      req_headers = [(''Metadata'', ''true'')]\<rparr>"

definition fetchTokenFromImds ::
  "fetch \<Rightarrow> string \<Rightarrow> string \<Rightarrow> state \<Rightarrow> (js_error + response) \<times> state" where
  "fetchTokenFromImds net resource clientId s = call_fetch net (imdsRequest resource clientId) s"

text \<open>
  \<^verbatim>\<open>identityEndpoint && identityHeader\<close>: truthy when both variables hold a
  non-empty string; then both values are at hand.
\<close>

definition useAppServiceEndpoint :: "env \<Rightarrow> (string \<times> string) option" where
  "useAppServiceEndpoint ev =
     (case ev ''IDENTITY_ENDPOINT'' of
        None \<Rightarrow> None
      | Some identityEndpoint \<Rightarrow>
          (case ev ''IDENTITY_HEADER'' of
             None \<Rightarrow> None
           | Some identityHeader \<Rightarrow>
               if identityEndpoint \<noteq> [] \<and> identityHeader \<noteq> []
               then Some (identityEndpoint, identityHeader) else None))"

definition failure_message :: "string \<Rightarrow> nat \<Rightarrow> string \<Rightarrow> string" where
  "failure_message source status body =
     ''Failed to acquire managed identity token from '' @ source @ '' (HTTP ''
       @ string_of_nat status @ ''): '' @ body"

definition fetchToken ::
  "env \<Rightarrow> fetch \<Rightarrow> string \<Rightarrow> string \<Rightarrow> state \<Rightarrow> (js_error + string) \<times> state" where
  "fetchToken ev net resource clientId s =
     (let (r, s1) =
            (case useAppServiceEndpoint ev of
               Some (identityEndpoint, identityHeader) \<Rightarrow>
                 fetchTokenFromAppService net resource clientId identityEndpoint identityHeader s
             | None \<Rightarrow> fetchTokenFromImds net resource clientId s)
      in case r of
           Inl e \<Rightarrow> (Inl e, s1)
         | Inr rsp \<Rightarrow>
             if \<not> resp_ok rsp then
               (case resp_text rsp of
                  Inl e \<Rightarrow> (Inl e, s1)
                | Inr body \<Rightarrow>
                    let source = (if useAppServiceEndpoint ev \<noteq> None
                                  then ''App Service/Container Apps'' else ''VM IMDS'')
                    in (Inl (Error (failure_message source (resp_status rsp) body)), s1))
             else
               (case resp_json rsp of
                  Inl e \<Rightarrow> (Inl e, s1)
                | Inr data \<Rightarrow>
                    let expiresOn = parseInt (expires_on data)
                    in (Inr (access_token data),
                        s1\<lparr>tokenCache := (tokenCache s1)(getCacheKey resource clientId \<mapsto>
                              \<lparr>accessToken = access_token data, expiresOn = expiresOn\<rparr>)\<rparr>)))"

text \<open>
  The request a call of \<^verbatim>\<open>fetchToken\<close> hands to \<^verbatim>\<open>fetch\<close>, read off the two
  branches of the source; the theorems below relate \<open>fetchToken\<close> to it.
\<close>

definition token_request :: "env \<Rightarrow> string \<Rightarrow> string \<Rightarrow> request" where
  "token_request ev resource clientId =
     (case useAppServiceEndpoint ev of
        Some (identityEndpoint, identityHeader) \<Rightarrow>
          appServiceRequest resource clientId identityEndpoint identityHeader
      | None \<Rightarrow> imdsRequest resource clientId)"

subsection \<open>The credential's \<^verbatim>\<open>authenticate\<close>\<close>

text \<open>
  The decrypted credential data: a field may be missing (\<^verbatim>\<open>undefined\<close>). The
  request options: the header bag, which may be missing, and every other field.
\<close>

record credentials =
  cred_resource :: "string option"
  cred_clientId :: "string option"

record 'r IHttpRequestOptions =
  headers :: "(string \<rightharpoonup> string) option"
  other_fields :: 'r

definition or_empty :: "string option \<Rightarrow> string" where
  "or_empty v = (case v of None \<Rightarrow> [] | Some x \<Rightarrow> x)"

definition spread :: "(string \<rightharpoonup> string) option \<Rightarrow> (string \<rightharpoonup> string)" where
  "spread h = (case h of None \<Rightarrow> Map.empty | Some m \<Rightarrow> m)"

definition authenticate ::
  "env \<Rightarrow> fetch \<Rightarrow> int \<Rightarrow> credentials \<Rightarrow> 'r IHttpRequestOptions \<Rightarrow> state
     \<Rightarrow> (js_error + 'r IHttpRequestOptions) \<times> state" where
  "authenticate ev net nowS creds requestOptions s =
     (let resource = or_empty (cred_resource creds);
          clientId = or_empty (cred_clientId creds)
      in if resource = [] then
           (Inl (Error ''Azure Managed Identity credential: \"Resource / Audience\" is required.''), s)
         else
           let (cached, tc) = getCachedToken nowS resource clientId (tokenCache s);
               s1 = s\<lparr>tokenCache := tc\<rparr>;
               (t, s2) = (case cached of
                            Some tok \<Rightarrow> (Inr tok, s1)
                          | None \<Rightarrow> fetchToken ev net resource clientId s1)
           in case t of
                Inl e \<Rightarrow> (Inl e, s2)
              | Inr token \<Rightarrow>
                  (Inr (requestOptions\<lparr>headers :=
                          Some ((spread (headers requestOptions))(''Authorization'' \<mapsto> ''Bearer '' @ token))\<rparr>),
                   s2))"

subsection \<open>Test doubles and sample inputs\<close>

text \<open>
  The mocks of the repository's test suites (a resolved or rejected \<^verbatim>\<open>fetch\<close>, a
  token response, an error response) and the environments the suites set up, used to run
  the model on concrete inputs.
\<close>

definition mockTokenResponse :: "string \<Rightarrow> string \<Rightarrow> response" where
  "mockTokenResponse token expires =
     \<lparr>resp_ok = True, resp_status = 200, resp_text = Inr '''',
      resp_json = Inr \<lparr>access_token = token, expires_on = expires\<rparr>\<rparr>"

definition mockErrorResponse :: "nat \<Rightarrow> string \<Rightarrow> response" where
  "mockErrorResponse status body =
     \<lparr>resp_ok = False, resp_status = status, resp_text = Inr body,
      resp_json = Inl (SyntaxError ''Unexpected token'')\<rparr>"

definition mockResolvedValue :: "response \<Rightarrow> fetch" where
  "mockResolvedValue rsp rq = Inr rsp"

definition mockRejectedValue :: "js_error \<Rightarrow> fetch" where
  "mockRejectedValue e rq = Inl e"

definition env_appservice :: env where
  "env_appservice = [''IDENTITY_ENDPOINT'' \<mapsto> ''http://localhost:42356/msi/token'',
                     ''IDENTITY_HEADER'' \<mapsto> ''test-header'']"

definition env_vm :: env where
  "env_vm = Map.empty"

definition env_blank_endpoint :: env where
  "env_blank_endpoint = [''IDENTITY_ENDPOINT'' \<mapsto> '''', ''IDENTITY_HEADER'' \<mapsto> ''test-header'']"

definition sample_cache :: tokenCache where
  "sample_cache = [''api://r|'' \<mapsto> \<lparr>accessToken = ''tok'', expiresOn = Fin 1300\<rparr>]"

definition sample_credentials :: credentials where
  "sample_credentials = \<lparr>cred_resource = Some ''api://test-cache-as'', cred_clientId = Some ''''\<rparr>"

definition makeRequestOptions :: "(string \<times> string) IHttpRequestOptions" where
  "makeRequestOptions = \<lparr>headers = None, other_fields = (''https://example.com'', ''GET'')\<rparr>"

definition sample_request :: "(string \<times> string) IHttpRequestOptions" where
  "sample_request = \<lparr>headers = Some [''Accept'' \<mapsto> ''application/json''],
                      other_fields = (''https://example.com'', ''GET'')\<rparr>"

section \<open>Properties of the token cache and the token provider\<close>

subsection \<open>Auxiliary facts\<close>

lemmas env_simps = env_appservice_def env_vm_def env_blank_endpoint_def
  token_request_def useAppServiceEndpoint_def

lemmas mock_simps = mockTokenResponse_def mockErrorResponse_def mockResolvedValue_def
  mockRejectedValue_def

lemma fetchToken_unfold:
  "fetchToken ev net resource clientId s =
     (let s1 = s\<lparr>fetchCalls := fetchCalls s @ [token_request ev resource clientId]\<rparr>
      in case net (token_request ev resource clientId) of
           Inl e \<Rightarrow> (Inl e, s1)
         | Inr rsp \<Rightarrow>
             if \<not> resp_ok rsp then
               (case resp_text rsp of
                  Inl e \<Rightarrow> (Inl e, s1)
                | Inr body \<Rightarrow>
                    (Inl (Error (failure_message
                       (if useAppServiceEndpoint ev \<noteq> None
                        then ''App Service/Container Apps'' else ''VM IMDS'')
                       (resp_status rsp) body)), s1))
             else
               (case resp_json rsp of
                  Inl e \<Rightarrow> (Inl e, s1)
                | Inr data \<Rightarrow>
                    (Inr (access_token data),
                     s1\<lparr>tokenCache := (tokenCache s)(getCacheKey resource clientId \<mapsto>
                           \<lparr>accessToken = access_token data,
                            expiresOn = parseInt (expires_on data)\<rparr>)\<rparr>)))"
  by (cases "useAppServiceEndpoint ev")
     (auto simp: fetchToken_def token_request_def fetchTokenFromAppService_def
        fetchTokenFromImds_def call_fetch_def Let_def split: sum.splits)

lemma fetchToken_calls:
  "fetchCalls (snd (fetchToken ev net resource clientId s))
     = fetchCalls s @ [token_request ev resource clientId]"
  by (simp add: fetchToken_unfold Let_def split: sum.splits)

lemma fetchToken_success:
  assumes "net (token_request ev resource clientId) = Inr rsp" "resp_ok rsp"
    "resp_json rsp = Inr data"
  shows "fetchToken ev net resource clientId s =
     (Inr (access_token data),
      s\<lparr>fetchCalls := fetchCalls s @ [token_request ev resource clientId],
        tokenCache := (tokenCache s)(getCacheKey resource clientId \<mapsto>
           \<lparr>accessToken = access_token data, expiresOn = parseInt (expires_on data)\<rparr>)\<rparr>)"
  using assms by (simp add: fetchToken_unfold Let_def)

lemma form_encode_names:
  "form_encode ''api-version'' = ''api-version''"
  "form_encode ''resource'' = ''resource''"
  "form_encode ''client_id'' = ''client_id''"
  "form_encode ''2019-08-01'' = ''2019-08-01''"
  "form_encode ''2018-02-01'' = ''2018-02-01''"
  by (simp_all add: form_encode_def form_encode_byte_def form_unreserved_def)

lemma appServiceParams_toString:
  "params_toString (appServiceParams resource clientId) =
     ''api-version=2019-08-01&resource='' @ form_encode resource
       @ (if clientId = [] then [] else ''&client_id='' @ form_encode clientId)"
  by (simp add: appServiceParams_def params_toString_def form_encode_names)

lemma imdsParams_toString:
  "params_toString (imdsParams resource clientId) =
     ''api-version=2018-02-01&resource='' @ form_encode resource
       @ (if clientId = [] then [] else ''&client_id='' @ form_encode clientId)"
  by (simp add: imdsParams_def params_toString_def form_encode_names)

lemma client_id_param:
  "(''client_id'' \<in> fst ` set (appServiceParams resource clientId)) = (clientId \<noteq> [])"
  "(''client_id'' \<in> fst ` set (imdsParams resource clientId)) = (clientId \<noteq> [])"
  by (auto simp: appServiceParams_def imdsParams_def)

lemma authenticate_miss:
  assumes "or_empty (cred_resource creds) = resource" "resource \<noteq> []"
    "or_empty (cred_clientId creds) = clientId"
    "fst (getCachedToken nowS resource clientId (tokenCache s)) = None"
  shows "fetchCalls (snd (authenticate ev net nowS creds ro s))
           = fetchCalls s @ [token_request ev resource clientId]"
  using assms fetchToken_calls[of ev net resource clientId
      "s\<lparr>tokenCache := snd (getCachedToken nowS resource clientId (tokenCache s))\<rparr>"]
  by (auto simp: authenticate_def Let_def split: prod.splits sum.splits option.splits)

lemma authenticate_hit:
  assumes "or_empty (cred_resource creds) = resource" "resource \<noteq> []"
    "or_empty (cred_clientId creds) = clientId"
    "fst (getCachedToken nowS resource clientId (tokenCache s)) = Some tok"
  shows "fetchCalls (snd (authenticate ev net nowS creds ro s)) = fetchCalls s"
  using assms
  by (auto simp: authenticate_def Let_def split: prod.splits sum.splits option.splits)

lemma authenticate_first:
  assumes "or_empty (cred_resource creds) = resource" "resource \<noteq> []"
    "or_empty (cred_clientId creds) = clientId"
    "tokenCache s (getCacheKey resource clientId) = None"
    "net (token_request ev resource clientId) = Inr rsp" "resp_ok rsp"
    "resp_json rsp = Inr data"
  shows "tokenCache (snd (authenticate ev net nowS creds ro s)) (getCacheKey resource clientId)
           = Some \<lparr>accessToken = access_token data, expiresOn = parseInt (expires_on data)\<rparr>"
  using assms
  by (auto simp: authenticate_def Let_def getCachedToken_def fetchToken_success
        split: prod.splits sum.splits option.splits)

subsection \<open>The claims about the cache and the provider\<close>

text \<open>
  Claim C1. For a cache entry stored under the key of (resource, clientId) with a numeric
  \<^verbatim>\<open>expiresOn\<close>: when \<^verbatim>\<open>expiresOn - now\<close> is at least 300 seconds the lookup
  returns the stored token and leaves the cache as it is; when it is less than 300 seconds
  (an expired entry included) the lookup deletes the entry and returns nothing. The
  comparison is strict, so a remaining lifetime of exactly 300 seconds is still served.
\<close>

theorem getCachedToken_margin:
  assumes "tc (getCacheKey resource clientId) = Some entry" and "expiresOn entry = Fin e"
  shows "(300 \<le> e - nowS \<longrightarrow>
            getCachedToken nowS resource clientId tc = (Some (accessToken entry), tc))
       \<and> (e - nowS < 300 \<longrightarrow>
            getCachedToken nowS resource clientId tc
              = (None, tc(getCacheKey resource clientId := None)))"
  using assms by (simp add: getCachedToken_def TOKEN_REFRESH_MARGIN_S_def)

theorem getCachedToken_margin_witness:
  "getCachedToken 1000 ''api://r'' '''' sample_cache = (Some ''tok'', sample_cache)
   \<and> getCachedToken 1001 ''api://r'' '''' sample_cache = (None, sample_cache(''api://r|'' := None))"
  using getCachedToken_margin[of sample_cache "''api://r''" "''''"
          "\<lparr>accessToken = ''tok'', expiresOn = Fin 1300\<rparr>" 1300 1000]
        getCachedToken_margin[of sample_cache "''api://r''" "''''"
          "\<lparr>accessToken = ''tok'', expiresOn = Fin 1300\<rparr>" 1300 1001]
  by (simp add: sample_cache_def getCacheKey_def)

text \<open>
  The claim as written speaks of the variables being set. With \<^verbatim>\<open>IDENTITY_ENDPOINT\<close>
  set to the empty string and \<^verbatim>\<open>IDENTITY_HEADER\<close> set, the truthiness test of the source
  selects IMDS.
\<close>

theorem fetchToken_endpoint_counterexample:
  "env_blank_endpoint ''IDENTITY_ENDPOINT'' = Some '''' 
   \<and> env_blank_endpoint ''IDENTITY_HEADER'' = Some ''test-header''
   \<and> fetchCalls (snd (fetchToken env_blank_endpoint (mockResolvedValue (mockTokenResponse ''t'' ''1'')) ''api://r'' '''' initial_state))
       = [\<lparr>req_url = ''http://169.254.169.254/metadata/identity/oauth2/token?api-version=2018-02-01&resource=api%3A%2F%2Fr'',
           req_method = ''GET'', req_headers = [(''Metadata'', ''true'')]\<rparr>]"
  by (simp add: fetchToken_calls env_simps initial_state_def imdsRequest_def IMDS_ENDPOINT_def imdsParams_toString
      form_encode_def form_encode_byte_def form_unreserved_def hex_digit_def)

text \<open>
  Claim C2, as amended. When \<^verbatim>\<open>IDENTITY_ENDPOINT\<close> and \<^verbatim>\<open>IDENTITY_HEADER\<close> both
  hold a non-empty string, \<open>fetchToken\<close> issues a GET to \<^verbatim>\<open>IDENTITY_ENDPOINT\<close> with
  \<^verbatim>\<open>api-version=2019-08-01\<close> and the header \<^verbatim>\<open>X-IDENTITY-HEADER\<close>; when neither is
  set it issues a GET to the IMDS address with \<^verbatim>\<open>api-version=2018-02-01\<close> and the
  header \<^verbatim>\<open>Metadata: true\<close>. Under both protocols \<^verbatim>\<open>client_id\<close> is a query
  parameter exactly when clientId is non-empty, and each fetch decides from the
  environment it is given: two fetches in a row with two environments issue the request of
  each.
\<close>

theorem fetchToken_endpoint_selection:
  "(\<forall>ep hd. ev ''IDENTITY_ENDPOINT'' = Some ep \<and> ev ''IDENTITY_HEADER'' = Some hd
        \<and> ep \<noteq> [] \<and> hd \<noteq> [] \<longrightarrow>
      fetchCalls (snd (fetchToken ev net resource clientId s)) = fetchCalls s @
        [\<lparr>req_url = ep @ ''?api-version=2019-08-01&resource='' @ form_encode resource
             @ (if clientId = [] then [] else ''&client_id='' @ form_encode clientId),
          req_method = ''GET'',
          req_headers = [(''X-IDENTITY-HEADER'', hd)]\<rparr>])
   \<and> (ev ''IDENTITY_ENDPOINT'' = None \<and> ev ''IDENTITY_HEADER'' = None \<longrightarrow>
      fetchCalls (snd (fetchToken ev net resource clientId s)) = fetchCalls s @
        [\<lparr>req_url = ''http://169.254.169.254/metadata/identity/oauth2/token''
             @ ''?api-version=2018-02-01&resource='' @ form_encode resource
             @ (if clientId = [] then [] else ''&client_id='' @ form_encode clientId),
          req_method = ''GET'',
          req_headers = [(''Metadata'', ''true'')]\<rparr>])
   \<and> (''client_id'' \<in> fst ` set (appServiceParams resource clientId)) = (clientId \<noteq> [])
   \<and> (''client_id'' \<in> fst ` set (imdsParams resource clientId)) = (clientId \<noteq> [])
   \<and> fetchCalls (snd (fetchToken ev' net' resource clientId
                         (snd (fetchToken ev net resource clientId s))))
        = fetchCalls s @ [token_request ev resource clientId, token_request ev' resource clientId]"
  by (simp add: fetchToken_calls client_id_param)
     (auto simp: token_request_def useAppServiceEndpoint_def appServiceRequest_def
        imdsRequest_def IMDS_ENDPOINT_def appServiceParams_toString imdsParams_toString)

theorem fetchToken_endpoint_selection_witness:
  "fetchCalls (snd (fetchToken env_appservice (mockRejectedValue (TypeError ''fetch failed''))
       ''api://test-vm-ua'' ''my-client-id'' initial_state))
     = [\<lparr>req_url = ''http://localhost:42356/msi/token?api-version=2019-08-01&resource=api%3A%2F%2Ftest-vm-ua&client_id=my-client-id'',
         req_method = ''GET'', req_headers = [(''X-IDENTITY-HEADER'', ''test-header'')]\<rparr>]
   \<and> fetchCalls (snd (fetchToken env_vm (mockRejectedValue (TypeError ''fetch failed''))
       ''api://test-vm-ua'' '''' initial_state))
     = [\<lparr>req_url = ''http://169.254.169.254/metadata/identity/oauth2/token?api-version=2018-02-01&resource=api%3A%2F%2Ftest-vm-ua'',
         req_method = ''GET'', req_headers = [(''Metadata'', ''true'')]\<rparr>]"
  using fetchToken_endpoint_selection[of env_appservice "mockRejectedValue (TypeError ''fetch failed'')"
          "''api://test-vm-ua''" "''my-client-id''" initial_state]
        fetchToken_endpoint_selection[of env_vm "mockRejectedValue (TypeError ''fetch failed'')"
          "''api://test-vm-ua''" "''''" initial_state]
  by (simp add: env_simps initial_state_def
      form_encode_def form_encode_byte_def form_unreserved_def hex_digit_def)

text \<open>
  Claim C3. Starting from an empty cache and an empty call log, two consecutive
  \<open>authenticate\<close> calls for the same (resource, clientId): if the first fetch succeeds
  with an expiry 3600 seconds after the first call, and the second call comes no later than
  3300 seconds after the first, \<^verbatim>\<open>fetch\<close> has been called exactly once after both; if
  the expiry is only 100 seconds after the first call, \<^verbatim>\<open>fetch\<close> has been called
  twice, once per call.
\<close>

theorem consecutive_authenticate_fetch_count:
  assumes "or_empty (cred_resource creds) = resource" and "resource \<noteq> []"
    and "or_empty (cred_clientId creds) = clientId"
    and "tokenCache s0 = Map.empty" and "fetchCalls s0 = []"
    and "net1 (token_request ev1 resource clientId) = Inr rsp" and "resp_ok rsp"
    and "resp_json rsp = Inr data" and "parseInt (expires_on data) = Fin (now1 + d)"
    and "s1 = snd (authenticate ev1 net1 now1 creds ro1 s0)"
    and "s2 = snd (authenticate ev2 net2 now2 creds ro2 s1)"
  shows "(d = 3600 \<and> now1 \<le> now2 \<and> now2 \<le> now1 + 3300 \<longrightarrow>
            length (fetchCalls s1) = 1 \<and> length (fetchCalls s2) = 1)
       \<and> (d = 100 \<and> now1 \<le> now2 \<longrightarrow>
            length (fetchCalls s1) = 1 \<and> length (fetchCalls s2) = 2)"
proof -
  have miss: "fst (getCachedToken now1 resource clientId (tokenCache s0)) = None"
    using assms(4) by (simp add: getCachedToken_def)
  have c1: "fetchCalls s1 = [token_request ev1 resource clientId]"
    using authenticate_miss[where ev=ev1 and net=net1 and ro=ro1, OF assms(1-3) miss] assms(5,10)
    by simp
  have e1: "tokenCache s1 (getCacheKey resource clientId)
      = Some \<lparr>accessToken = access_token data, expiresOn = Fin (now1 + d)\<rparr>"
    using authenticate_first[of creds resource clientId s0 net1 ev1 rsp data now1 ro1] assms
    by simp
  have fresh: "d = 3600 \<and> now1 \<le> now2 \<and> now2 \<le> now1 + 3300 \<Longrightarrow> length (fetchCalls s2) = 1"
  proof -
    assume h: "d = 3600 \<and> now1 \<le> now2 \<and> now2 \<le> now1 + 3300"
    have "fst (getCachedToken now2 resource clientId (tokenCache s1)) = Some (access_token data)"
      using e1 h by (simp add: getCachedToken_def TOKEN_REFRESH_MARGIN_S_def)
    from authenticate_hit[where ev=ev2 and net=net2 and ro=ro2, OF assms(1-3) this] show ?thesis
      using c1 assms(11) by simp
  qed
  have stale: "d = 100 \<and> now1 \<le> now2 \<Longrightarrow> length (fetchCalls s2) = 2"
  proof -
    assume h: "d = 100 \<and> now1 \<le> now2"
    have "fst (getCachedToken now2 resource clientId (tokenCache s1)) = None"
      using e1 h by (simp add: getCachedToken_def TOKEN_REFRESH_MARGIN_S_def)
    from authenticate_miss[where ev=ev2 and net=net2 and ro=ro2, OF assms(1-3) this] show ?thesis
      using c1 assms(11) by simp
  qed
  show ?thesis using c1 fresh stale by simp
qed

theorem consecutive_authenticate_fetch_count_witness:
  "length (fetchCalls (snd (authenticate env_appservice (mockRejectedValue (TypeError ''unused''))
      1000 sample_credentials makeRequestOptions
      (snd (authenticate env_appservice (mockResolvedValue (mockTokenResponse ''cached-token'' ''4600''))
              1000 sample_credentials makeRequestOptions initial_state))))) = 1
   \<and> length (fetchCalls (snd (authenticate env_appservice
      (mockResolvedValue (mockTokenResponse ''new-token'' ''4600''))
      1000 sample_credentials makeRequestOptions
      (snd (authenticate env_appservice (mockResolvedValue (mockTokenResponse ''old-token'' ''1100''))
              1000 sample_credentials makeRequestOptions initial_state))))) = 2"
proof -
  have p: "parseInt ''4600'' = Fin 4600" "parseInt ''1100'' = Fin 1100"
    by code_simp+
  show ?thesis
    using consecutive_authenticate_fetch_count[where creds = sample_credentials
            and resource = "''api://test-cache-as''" and clientId = "''''"
            and ?s0.0 = initial_state and ?now1.0 = 1000 and ?now2.0 = 1000 and d = 3600
            and ?net1.0 = "mockResolvedValue (mockTokenResponse ''cached-token'' ''4600'')"
            and ?ev1.0 = env_appservice and ?ev2.0 = env_appservice
            and rsp = "mockTokenResponse ''cached-token'' ''4600''"
            and data = "\<lparr>access_token = ''cached-token'', expires_on = ''4600''\<rparr>"
            and ?net2.0 = "mockRejectedValue (TypeError ''unused'')"
            and ?ro1.0 = makeRequestOptions and ?ro2.0 = makeRequestOptions,
            OF _ _ _ _ _ _ _ _ _ refl refl]
          consecutive_authenticate_fetch_count[where creds = sample_credentials
            and resource = "''api://test-cache-as''" and clientId = "''''"
            and ?s0.0 = initial_state and ?now1.0 = 1000 and ?now2.0 = 1000 and d = 100
            and ?net1.0 = "mockResolvedValue (mockTokenResponse ''old-token'' ''1100'')"
            and ?ev1.0 = env_appservice and ?ev2.0 = env_appservice
            and rsp = "mockTokenResponse ''old-token'' ''1100''"
            and data = "\<lparr>access_token = ''old-token'', expires_on = ''1100''\<rparr>"
            and ?net2.0 = "mockResolvedValue (mockTokenResponse ''new-token'' ''4600'')"
            and ?ro1.0 = makeRequestOptions and ?ro2.0 = makeRequestOptions,
            OF _ _ _ _ _ _ _ _ _ refl refl]
    by (simp add: mock_simps p sample_credentials_def or_empty_def initial_state_def)
qed

text \<open>
  Claim C5. When the response to the request is not \<^verbatim>\<open>ok\<close> and its body reads as text
  \<open>body\<close>, \<open>fetchToken\<close> fails with an \<^verbatim>\<open>Error\<close> whose message is exactly
  \<^verbatim>\<open>Failed to acquire managed identity token from {source} (HTTP {status}): {body}\<close>, the
  source being \<^verbatim>\<open>App Service/Container Apps\<close> when the App Service request was sent and
  \<^verbatim>\<open>VM IMDS\<close> when the IMDS request was sent.
\<close>

theorem fetchToken_failure_message:
  assumes "net (token_request ev resource clientId) = Inr rsp"
    and "\<not> resp_ok rsp" and "resp_text rsp = Inr body"
  shows "(\<forall>ep hd. useAppServiceEndpoint ev = Some (ep, hd) \<longrightarrow>
            token_request ev resource clientId = appServiceRequest resource clientId ep hd
          \<and> fst (fetchToken ev net resource clientId s) =
              Inl (Error (''Failed to acquire managed identity token from ''
                @ ''App Service/Container Apps''
                @ '' (HTTP '' @ string_of_nat (resp_status rsp) @ ''): '' @ body)))
       \<and> (useAppServiceEndpoint ev = None \<longrightarrow>
            token_request ev resource clientId = imdsRequest resource clientId
          \<and> fst (fetchToken ev net resource clientId s) =
              Inl (Error (''Failed to acquire managed identity token from ''
                @ ''VM IMDS''
                @ '' (HTTP '' @ string_of_nat (resp_status rsp) @ ''): '' @ body)))"
proof -
  have f: "fst (fetchToken ev net resource clientId s) =
      Inl (Error (failure_message
        (if useAppServiceEndpoint ev \<noteq> None then ''App Service/Container Apps'' else ''VM IMDS'')
        (resp_status rsp) body))"
    using assms by (simp add: fetchToken_unfold Let_def)
  show ?thesis
    unfolding f by (auto simp: failure_message_def token_request_def)
qed

theorem fetchToken_failure_message_witness:
  "fst (fetchToken env_appservice (mockResolvedValue (mockErrorResponse 403 ''Forbidden''))
          ''api://test-error-as'' '''' initial_state)
     = Inl (Error ''Failed to acquire managed identity token from App Service/Container Apps (HTTP 403): Forbidden'')
   \<and> fst (fetchToken env_vm (mockResolvedValue (mockErrorResponse 404 ''Not Found''))
          ''api://test-error-vm'' '''' initial_state)
     = Inl (Error ''Failed to acquire managed identity token from VM IMDS (HTTP 404): Not Found'')"
proof -
  have n: "string_of_nat 403 = ''403''" "string_of_nat 404 = ''404''"
    by code_simp+
  show ?thesis
    using fetchToken_failure_message[of "mockResolvedValue (mockErrorResponse 403 ''Forbidden'')"
            env_appservice "''api://test-error-as''" "''''" "mockErrorResponse 403 ''Forbidden''"
            "''Forbidden''" initial_state]
          fetchToken_failure_message[of "mockResolvedValue (mockErrorResponse 404 ''Not Found'')"
            env_vm "''api://test-error-vm''" "''''" "mockErrorResponse 404 ''Not Found''"
            "''Not Found''" initial_state]
    by (simp add: mock_simps n env_appservice_def env_vm_def useAppServiceEndpoint_def)
qed

text \<open>
  Claim C8. A successful \<open>authenticate\<close> returns the request options it was given with
  the header \<^verbatim>\<open>Authorization\<close> set to \<^verbatim>\<open>Bearer {token}\<close>, the token being the
  cached one or else the fetched one; every other header and every other field is as in the
  input.
\<close>

theorem authenticate_frame:
  assumes "authenticate ev net nowS creds requestOptions s = (Inr requestOptions', s')"
  shows "\<exists>token.
      (fst (getCachedToken nowS (or_empty (cred_resource creds)) (or_empty (cred_clientId creds))
              (tokenCache s)) = Some token
       \<or> fst (getCachedToken nowS (or_empty (cred_resource creds)) (or_empty (cred_clientId creds))
              (tokenCache s)) = None
         \<and> fst (fetchToken ev net (or_empty (cred_resource creds)) (or_empty (cred_clientId creds))
              (s\<lparr>tokenCache := snd (getCachedToken nowS (or_empty (cred_resource creds))
                 (or_empty (cred_clientId creds)) (tokenCache s))\<rparr>)) = Inr token)
    \<and> requestOptions' = requestOptions\<lparr>headers :=
          Some ((spread (headers requestOptions))(''Authorization'' \<mapsto> ''Bearer '' @ token))\<rparr>
    \<and> other_fields requestOptions' = other_fields requestOptions
    \<and> spread (headers requestOptions') ''Authorization'' = Some (''Bearer '' @ token)
    \<and> (\<forall>h. h \<noteq> ''Authorization'' \<longrightarrow>
           spread (headers requestOptions') h = spread (headers requestOptions) h)"
  using assms
  by (auto simp: authenticate_def Let_def spread_def split: if_splits prod.splits option.splits sum.splits)

theorem authenticate_frame_witness:
  "fst (authenticate env_appservice (mockResolvedValue (mockTokenResponse ''appservice-token'' ''4600''))
          1000 sample_credentials sample_request initial_state)
     = Inr \<lparr>headers = Some [''Accept'' \<mapsto> ''application/json'',
                             ''Authorization'' \<mapsto> ''Bearer appservice-token''],
            other_fields = (''https://example.com'', ''GET'')\<rparr>"
proof -
  let ?net = "mockResolvedValue (mockTokenResponse ''appservice-token'' ''4600'')"
  let ?r = "authenticate env_appservice ?net 1000 sample_credentials sample_request initial_state"
  have f: "fst ?r = Inr (sample_request\<lparr>headers := Some ((spread (headers sample_request))
              (''Authorization'' \<mapsto> ''Bearer '' @ ''appservice-token''))\<rparr>)"
    by (simp add: authenticate_def sample_credentials_def or_empty_def Let_def getCachedToken_def
          initial_state_def fetchToken_unfold mock_simps split: prod.splits)
  then have "?r = (Inr (sample_request\<lparr>headers := Some ((spread (headers sample_request))
              (''Authorization'' \<mapsto> ''Bearer '' @ ''appservice-token''))\<rparr>), snd ?r)"
    by (metis prod.collapse)
  from authenticate_frame[OF this] f show ?thesis
    by (simp add: sample_request_def spread_def)
qed

text \<open>
  Claim C9. When a success response carries an \<^verbatim>\<open>expires_on\<close> that \<open>parseInt\<close> turns
  into \<^verbatim>\<open>NaN\<close>, \<open>fetchToken\<close> still stores the entry, with \<^verbatim>\<open>expiresOn = NaN\<close>,
  and a lookup at any later time returns the token and leaves the cache unchanged: the
  entry is never evicted.
\<close>

theorem nan_expiry_never_evicted:
  assumes "net (token_request ev resource clientId) = Inr rsp" and "resp_ok rsp"
    and "resp_json rsp = Inr data" and "parseInt (expires_on data) = NaN"
  shows "fst (fetchToken ev net resource clientId s) = Inr (access_token data)
     \<and> tokenCache (snd (fetchToken ev net resource clientId s)) (getCacheKey resource clientId)
          = Some \<lparr>accessToken = access_token data, expiresOn = NaN\<rparr>
     \<and> (\<forall>nowS. getCachedToken nowS resource clientId
                    (tokenCache (snd (fetchToken ev net resource clientId s)))
          = (Some (access_token data), tokenCache (snd (fetchToken ev net resource clientId s))))"
  using assms by (simp add: fetchToken_success getCachedToken_def)

theorem nan_expiry_never_evicted_witness:
  "parseInt ''soon'' = NaN
   \<and> fst (fetchToken env_vm (mockResolvedValue (mockTokenResponse ''tok'' ''soon''))
          ''api://r'' '''' initial_state) = Inr ''tok''
   \<and> fst (getCachedToken 99999999999 ''api://r'' ''''
        (tokenCache (snd (fetchToken env_vm (mockResolvedValue (mockTokenResponse ''tok'' ''soon''))
          ''api://r'' '''' initial_state)))) = Some ''tok''"
proof -
  have n: "parseInt ''soon'' = NaN"
    by code_simp
  show ?thesis
    using nan_expiry_never_evicted[of "mockResolvedValue (mockTokenResponse ''tok'' ''soon'')"
            env_vm "''api://r''" "''''" "mockTokenResponse ''tok'' ''soon''"
            "\<lparr>access_token = ''tok'', expires_on = ''soon''\<rparr>" initial_state] n
    by (simp add: mock_simps)
qed

text \<open>
  Claim C10. A \<open>fetchToken\<close> call that fails, for whatever reason, leaves the token cache
  as it was; the cache differs after a call only when \<^verbatim>\<open>fetch\<close> resolved to an
  \<^verbatim>\<open>ok\<close> response whose body parsed, and then the call returned its token.
\<close>

theorem fetchToken_failure_keeps_cache:
  "(\<forall>e s'. fetchToken ev net resource clientId s = (Inl e, s') \<longrightarrow> tokenCache s' = tokenCache s)
   \<and> (tokenCache (snd (fetchToken ev net resource clientId s)) \<noteq> tokenCache s \<longrightarrow>
        (\<exists>rsp data. net (token_request ev resource clientId) = Inr rsp \<and> resp_ok rsp
            \<and> resp_json rsp = Inr data
            \<and> fst (fetchToken ev net resource clientId s) = Inr (access_token data)))"
  by (auto simp: fetchToken_unfold Let_def split: sum.splits if_splits)

theorem fetchToken_failure_keeps_cache_witness:
  "fst (fetchToken env_vm (mockResolvedValue (mockErrorResponse 404 ''Not Found''))
          ''api://r'' '''' (initial_state\<lparr>tokenCache := sample_cache\<rparr>))
     = Inl (Error ''Failed to acquire managed identity token from VM IMDS (HTTP 404): Not Found'')
   \<and> tokenCache (snd (fetchToken env_vm (mockResolvedValue (mockErrorResponse 404 ''Not Found''))
          ''api://r'' '''' (initial_state\<lparr>tokenCache := sample_cache\<rparr>))) = sample_cache
   \<and> tokenCache (snd (fetchToken env_vm (mockRejectedValue (TypeError ''fetch failed''))
          ''api://r'' '''' (initial_state\<lparr>tokenCache := sample_cache\<rparr>))) = sample_cache"
proof -
  let ?s = "initial_state\<lparr>tokenCache := sample_cache\<rparr>"
  let ?a = "fetchToken env_vm (mockResolvedValue (mockErrorResponse 404 ''Not Found''))
          ''api://r'' '''' ?s"
  let ?b = "fetchToken env_vm (mockRejectedValue (TypeError ''fetch failed''))
          ''api://r'' '''' ?s"
  have n: "string_of_nat 404 = ''404''"
    by code_simp
  have a: "fst ?a = Inl (Error ''Failed to acquire managed identity token from VM IMDS (HTTP 404): Not Found'')"
    by (simp add: fetchToken_unfold mock_simps failure_message_def n env_vm_def
          useAppServiceEndpoint_def)
  have b: "fst ?b = Inl (TypeError ''fetch failed'')"
    by (simp add: fetchToken_unfold mock_simps)
  have "tokenCache (snd ?a) = tokenCache ?s"
    using fetchToken_failure_keeps_cache[of env_vm
        "mockResolvedValue (mockErrorResponse 404 ''Not Found'')" "''api://r''" "''''" ?s] a
    by (metis prod.collapse)
  moreover have "tokenCache (snd ?b) = tokenCache ?s"
    using fetchToken_failure_keeps_cache[of env_vm
        "mockRejectedValue (TypeError ''fetch failed'')" "''api://r''" "''''" ?s] b
    by (metis prod.collapse)
  ultimately show ?thesis using a by simp
qed

end
